theory Spec2Isabelle
  imports Complex_Main "HOL-Library.Word" "HOL-Library.Sublist"
begin

unbundle bit_operations_syntax

section \<open>Python values\<close>

text \<open>
  A Python \<open>str\<close> is a sequence of Unicode code points, so \<open>len\<close> is the length of the
  list. Literals of the source are written \<open>lit ''...''\<close>. A Python \<open>float\<close> is modelled as
  a real number: arithmetic on times and averages is exact. A \<open>dict\<close> whose keys are the
  string literals of the source is an association list in insertion order.
\<close>

type_synonym pystr = "nat list"

definition lit :: "string \<Rightarrow> pystr" where
  "lit s = map of_char s"

datatype pyval =
    PyInt int
  | PyFloat real
  | PyStr pystr
  | PyBool bool
  | PyList "pyval list"
  | PyDict "(string \<times> pyval) list"

type_synonym pydict = "(string \<times> pyval) list"

text \<open>
  Exceptions, each below \<open>Exception\<close> in Python's hierarchy, carrying \<open>str(e)\<close>.
  \<open>RaisedException\<close> is whatever a collaborator (an import, a parser, the file system)
  raises.
\<close>

datatype exn =
    ValueError pystr
  | ZeroDivisionError pystr
  | UnicodeEncodeError pystr
  | UnboundLocalError pystr
  | RaisedException pystr

fun str_exn :: "exn \<Rightarrow> pystr" where
  "str_exn (ValueError m) = m"
| "str_exn (ZeroDivisionError m) = m"
| "str_exn (UnicodeEncodeError m) = m"
| "str_exn (UnboundLocalError m) = m"
| "str_exn (RaisedException m) = m"

text \<open>\<open>a / b\<close> on numbers: true division, raising on a zero divisor.\<close>

definition py_truediv :: "real \<Rightarrow> real \<Rightarrow> exn + real" where
  "py_truediv a b =
     (if b = 0 then Inl (ZeroDivisionError (lit ''division by zero'')) else Inr (a / b))"

text \<open>\<open>os.path.basename\<close> (POSIX): what follows the last slash.\<close>

definition basename :: "pystr \<Rightarrow> pystr" where
  "basename p = rev (takeWhile (\<lambda>c. c \<noteq> 47) (rev p))"

section \<open>The collaborators\<close>

text \<open>
  The parser classes of \<open>chunkhound.parsers\<close>, a chunk with its \<open>content\<close>, and the
  environment the script runs in: the clock, the import and construction of a parser, the
  reading of a file, a parser's \<open>parse\<close>, and the file system's \<open>exists\<close>. The world \<open>'w\<close>
  is threaded through every call, so a second call with the same arguments may answer
  differently from the first. Which paths exist does not change during a run.
\<close>

datatype parser_class = MarkdownParser | RapidYamlParser | VueParser | CodeParser

record chunk =
  content :: pystr

record 'w env =
  time_time :: "'w \<Rightarrow> real \<times> 'w"
  new_parser :: "parser_class \<Rightarrow> 'w \<Rightarrow> (exn + unit) \<times> 'w"
  open_read :: "pystr \<Rightarrow> 'w \<Rightarrow> (exn + pystr) \<times> 'w"
  parser_parse :: "parser_class \<Rightarrow> pystr \<Rightarrow> pystr \<Rightarrow> 'w \<Rightarrow> (exn + chunk list) \<times> 'w"
  path_exists :: "pystr \<Rightarrow> bool"
  sys_version :: pystr
  project_root :: pystr
  script_dir :: pystr

section \<open>benchmark\_file\_parsing\<close>

text \<open>The \<open>if\<close>/\<open>elif\<close> chain on \<open>parser_name\<close>, with its \<open>else: raise ValueError\<close>.\<close>

definition select_parser :: "pystr \<Rightarrow> exn + parser_class" where
  "select_parser parser_name =
     (if parser_name = lit ''markdown'' then Inr MarkdownParser
      else if parser_name = lit ''yaml'' then Inr RapidYamlParser
      else if parser_name = lit ''vue'' then Inr VueParser
      else if parser_name = lit ''code'' then Inr CodeParser
      else Inl (ValueError (lit ''Unknown parser: '' @ parser_name)))"

definition chunk_sizes :: "chunk list \<Rightarrow> int" where
  "chunk_sizes chunks = (\<Sum>c\<leftarrow>chunks. int (length (content c)))"

text \<open>The dictionary of the \<open>return\<close> inside \<open>try\<close>; its division may raise.\<close>

definition parsing_success :: "pystr \<Rightarrow> pystr \<Rightarrow> real \<Rightarrow> chunk list \<Rightarrow> exn + pydict" where
  "parsing_success file_path parser_name parse_time chunks =
     (case (if chunks \<noteq> []
            then map_sum id PyFloat
                   (py_truediv (real_of_int (chunk_sizes chunks)) (real (length chunks)))
            else Inr (PyInt 0)) of
        Inl e \<Rightarrow> Inl e
      | Inr avg \<Rightarrow>
          Inr [(''file'', PyStr (basename file_path)),
               (''parser'', PyStr parser_name),
               (''parse_time_ms'', PyFloat (parse_time * 1000)),
               (''chunk_count'', PyInt (int (length chunks))),
               (''total_chunk_size'', PyInt (chunk_sizes chunks)),
               (''avg_chunk_size'', avg),
               (''success'', PyBool True)])"

text \<open>The body of \<open>try\<close>: the first exception leaves it.\<close>

definition parsing_try ::
  "'w env \<Rightarrow> pystr \<Rightarrow> pystr \<Rightarrow> real \<Rightarrow> 'w \<Rightarrow> (exn + pydict) \<times> 'w" where
  "parsing_try e file_path parser_name start_time w =
     (case select_parser parser_name of
        Inl x \<Rightarrow> (Inl x, w)
      | Inr cls \<Rightarrow>
          (case new_parser e cls w of
             (Inl x, w1) \<Rightarrow> (Inl x, w1)
           | (Inr _, w1) \<Rightarrow>
               (case open_read e file_path w1 of
                  (Inl x, w2) \<Rightarrow> (Inl x, w2)
                | (Inr text, w2) \<Rightarrow>
                    (case parser_parse e cls text file_path w2 of
                       (Inl x, w3) \<Rightarrow> (Inl x, w3)
                     | (Inr chunks, w3) \<Rightarrow>
                         (case time_time e w3 of
                            (t, w4) \<Rightarrow>
                              (parsing_success file_path parser_name (t - start_time) chunks,
                               w4))))))"

definition parsing_failure :: "pystr \<Rightarrow> pystr \<Rightarrow> real \<Rightarrow> exn \<Rightarrow> pydict" where
  "parsing_failure file_path parser_name elapsed x =
     [(''file'', PyStr (basename file_path)),
      (''parser'', PyStr parser_name),
      (''parse_time_ms'', PyFloat (elapsed * 1000)),
      (''error'', PyStr (str_exn x)),
      (''success'', PyBool False)]"

definition benchmark_file_parsing :: "'w env \<Rightarrow> pystr \<Rightarrow> pystr \<Rightarrow> 'w \<Rightarrow> pydict \<times> 'w" where
  "benchmark_file_parsing e file_path parser_name w =
     (case time_time e w of
        (start_time, w0) \<Rightarrow>
          (case parsing_try e file_path parser_name start_time w0 of
             (Inr d, w1) \<Rightarrow> (d, w1)
           | (Inl x, w1) \<Rightarrow>
               (case time_time e w1 of
                  (t, w2) \<Rightarrow> (parsing_failure file_path parser_name (t - start_time) x, w2))))"

section \<open>Library functions used by benchmark\_embedding\<close>

type_synonym byte = "8 word"
type_synonym u32 = "32 word"

subsection \<open>str(n), str.encode()\<close>

fun str_nat :: "nat \<Rightarrow> pystr" where
  "str_nat n = (if n < 10 then [48 + n] else str_nat (n div 10) @ [48 + n mod 10])"

declare str_nat.simps [simp del]

definition hex_digit :: "nat \<Rightarrow> nat" where
  "hex_digit n = (if n < 10 then 48 + n else 87 + n)"

definition is_surrogate :: "nat \<Rightarrow> bool" where
  "is_surrogate c = (0xD800 \<le> c \<and> c \<le> 0xDFFF)"

text \<open>The UTF-8 bytes of one code point that is not a surrogate.\<close>

definition utf8_bytes :: "nat \<Rightarrow> byte list" where
  "utf8_bytes c =
     (if c < 0x80 then [of_nat c]
      else if c < 0x800 then [of_nat (0xC0 + c div 64), of_nat (0x80 + c mod 64)]
      else if c < 0x10000 then
        [of_nat (0xE0 + c div 4096), of_nat (0x80 + c div 64 mod 64), of_nat (0x80 + c mod 64)]
      else
        [of_nat (0xF0 + c div 262144), of_nat (0x80 + c div 4096 mod 64),
         of_nat (0x80 + c div 64 mod 64), of_nat (0x80 + c mod 64)])"

text \<open>
  The message of the \<open>UnicodeEncodeError\<close> for the surrogates at positions
  \<open>start..<stop\<close>, the first of them being \<open>c\<close>.
\<close>

definition surrogate_message :: "nat \<Rightarrow> nat \<Rightarrow> nat \<Rightarrow> pystr" where
  "surrogate_message c start stop =
     (if stop = start + 1
      then [39] @ lit ''utf-8'' @ [39] @ lit '' codec can'' @ [39] @ lit ''t encode character ''
           @ [39, 92, 117, hex_digit (c div 4096), hex_digit (c div 256 mod 16),
              hex_digit (c div 16 mod 16), hex_digit (c mod 16), 39]
           @ lit '' in position '' @ str_nat start @ lit '': surrogates not allowed''
      else [39] @ lit ''utf-8'' @ [39] @ lit '' codec can'' @ [39] @ lit ''t encode characters''
           @ lit '' in position '' @ str_nat start @ lit ''-'' @ str_nat (stop - 1)
           @ lit '': surrogates not allowed'')"

text \<open>\<open>text.encode()\<close>: UTF-8, strict; a lone surrogate cannot be encoded.\<close>

definition str_encode :: "pystr \<Rightarrow> exn + byte list" where
  "str_encode text =
     (let start = length (takeWhile (\<lambda>c. \<not> is_surrogate c) text) in
      if start = length text then Inr (concat (map utf8_bytes text))
      else Inl (UnicodeEncodeError
             (surrogate_message (text ! start) start
                (start + length (takeWhile is_surrogate (drop start text))))))"

subsection \<open>hashlib.md5 (RFC 1321)\<close>

definition md5_shifts :: "nat list" where
  "md5_shifts =
     [7, 12, 17, 22, 7, 12, 17, 22, 7, 12, 17, 22, 7, 12, 17, 22,
      5, 9, 14, 20, 5, 9, 14, 20, 5, 9, 14, 20, 5, 9, 14, 20,
      4, 11, 16, 23, 4, 11, 16, 23, 4, 11, 16, 23, 4, 11, 16, 23,
      6, 10, 15, 21, 6, 10, 15, 21, 6, 10, 15, 21, 6, 10, 15, 21]"

definition md5_consts :: "u32 list" where
  "md5_consts =
     [0xd76aa478, 0xe8c7b756, 0x242070db, 0xc1bdceee, 0xf57c0faf, 0x4787c62a, 0xa8304613, 0xfd469501,
      0x698098d8, 0x8b44f7af, 0xffff5bb1, 0x895cd7be, 0x6b901122, 0xfd987193, 0xa679438e, 0x49b40821,
      0xf61e2562, 0xc040b340, 0x265e5a51, 0xe9b6c7aa, 0xd62f105d, 0x02441453, 0xd8a1e681, 0xe7d3fbc8,
      0x21e1cde6, 0xc33707d6, 0xf4d50d87, 0x455a14ed, 0xa9e3e905, 0xfcefa3f8, 0x676f02d9, 0x8d2a4c8a,
      0xfffa3942, 0x8771f681, 0x6d9d6122, 0xfde5380c, 0xa4beea44, 0x4bdecfa9, 0xf6bb4b60, 0xbebfbc70,
      0x289b7ec6, 0xeaa127fa, 0xd4ef3085, 0x04881d05, 0xd9d4d039, 0xe6db99e5, 0x1fa27cf8, 0xc4ac5665,
      0xf4292244, 0x432aff97, 0xab9423a7, 0xfc93a039, 0x655b59c3, 0x8f0ccc92, 0xffeff47d, 0x85845dd1,
      0x6fa87e4f, 0xfe2ce6e0, 0xa3014314, 0x4e0811a1, 0xf7537e82, 0xbd3af235, 0x2ad7d2bb, 0xeb86d391]"

definition rotl32 :: "nat \<Rightarrow> u32 \<Rightarrow> u32" where
  "rotl32 n w = push_bit n w OR drop_bit (32 - n) w"

definition md5_f :: "nat \<Rightarrow> u32 \<Rightarrow> u32 \<Rightarrow> u32 \<Rightarrow> u32" where
  "md5_f i b c d =
     (if i < 16 then (b AND c) OR (NOT b AND d)
      else if i < 32 then (d AND b) OR (NOT d AND c)
      else if i < 48 then b XOR c XOR d
      else c XOR (b OR NOT d))"

definition md5_g :: "nat \<Rightarrow> nat" where
  "md5_g i =
     (if i < 16 then i
      else if i < 32 then (5 * i + 1) mod 16
      else if i < 48 then (3 * i + 5) mod 16
      else (7 * i) mod 16)"

type_synonym md5_state = "u32 \<times> u32 \<times> u32 \<times> u32"

fun md5_step :: "u32 list \<Rightarrow> md5_state \<Rightarrow> nat \<Rightarrow> md5_state" where
  "md5_step m (a, b, c, d) i =
     (d, b + rotl32 (md5_shifts ! i) (md5_f i b c d + a + md5_consts ! i + m ! md5_g i), b, c)"

text \<open>\<open>md5_rounds m st i n\<close>: the steps \<open>i, i + 1, ..., i + n - 1\<close>.\<close>

fun md5_rounds :: "u32 list \<Rightarrow> md5_state \<Rightarrow> nat \<Rightarrow> nat \<Rightarrow> md5_state" where
  "md5_rounds m st i 0 = st"
| "md5_rounds m st i (Suc n) = md5_rounds m (md5_step m st i) (i + 1) n"

definition le_word :: "byte list \<Rightarrow> u32" where
  "le_word bs = foldr (\<lambda>b acc. push_bit 8 acc OR ucast b) bs 0"

definition word_bytes :: "u32 \<Rightarrow> byte list" where
  "word_bytes w = map (\<lambda>k. ucast (drop_bit (8 * k) w)) [0, 1, 2, 3]"

definition len_bytes :: "nat \<Rightarrow> byte list" where
  "len_bytes n = map (\<lambda>k. of_nat (8 * n div 2 ^ (8 * k))) [0, 1, 2, 3, 4, 5, 6, 7]"

definition md5_pad :: "byte list \<Rightarrow> byte list" where
  "md5_pad bs =
     bs @ [0x80] @ replicate ((119 - length bs mod 64) mod 64) 0 @ len_bytes (length bs)"

fun block_words :: "nat \<Rightarrow> byte list \<Rightarrow> u32 list" where
  "block_words 0 bs = []"
| "block_words (Suc n) bs = le_word (take 4 bs) # block_words n (drop 4 bs)"

fun md5_block :: "md5_state \<Rightarrow> byte list \<Rightarrow> md5_state" where
  "md5_block (a0, b0, c0, d0) blk =
     (case md5_rounds (block_words 16 blk) (a0, b0, c0, d0) 0 64 of
        (a, b, c, d) \<Rightarrow> (a0 + a, b0 + b, c0 + c, d0 + d))"

fun md5_blocks :: "nat \<Rightarrow> md5_state \<Rightarrow> byte list \<Rightarrow> md5_state" where
  "md5_blocks 0 h bs = h"
| "md5_blocks (Suc n) h bs = md5_blocks n (md5_block h (take 64 bs)) (drop 64 bs)"

fun md5_output :: "md5_state \<Rightarrow> byte list" where
  "md5_output (a, b, c, d) = word_bytes a @ word_bytes b @ word_bytes c @ word_bytes d"

definition md5 :: "byte list \<Rightarrow> byte list" where
  "md5 bs =
     md5_output
       (md5_blocks (length (md5_pad bs) div 64)
          (0x67452301, 0xefcdab89, 0x98badcfe, 0x10325476) (md5_pad bs))"

definition hexdigest :: "byte list \<Rightarrow> pystr" where
  "hexdigest digest =
     concat (map (\<lambda>b. [hex_digit (unat b div 16), hex_digit (unat b mod 16)]) digest)"

subsection \<open>int(s, 16)\<close>

definition hex_value :: "nat \<Rightarrow> nat option" where
  "hex_value c =
     (if 48 \<le> c \<and> c \<le> 57 then Some (c - 48)
      else if 97 \<le> c \<and> c \<le> 102 then Some (c - 87)
      else if 65 \<le> c \<and> c \<le> 70 then Some (c - 55)
      else None)"

text \<open>
  A non-empty run of hexadecimal digits is read in base 16; anything else raises. (Python
  also reads a sign, a \<open>0x\<close> prefix, underscores and surrounding blanks; no slice of a
  hex digest has them.)
\<close>

definition py_int16 :: "pystr \<Rightarrow> exn + int" where
  "py_int16 s =
     (if s \<noteq> [] \<and> list_all (\<lambda>c. hex_value c \<noteq> None) s
      then Inr (int (foldl (\<lambda>a c. 16 * a + the (hex_value c)) 0 s))
      else Inl (ValueError (lit ''invalid literal for int() with base 16: '' @ [39] @ s @ [39])))"

section \<open>benchmark\_embedding\<close>

text \<open>
  The list comprehension over \<open>range(0, 32, 2)\<close>:
  \<open>int(hexdigest[i:i+2], 16) / 255.0\<close> for each \<open>i\<close> in turn.
\<close>

fun hex_pairs :: "pystr \<Rightarrow> nat list \<Rightarrow> exn + real list" where
  "hex_pairs h [] = Inr []"
| "hex_pairs h (i # rest) =
     (case py_int16 (take 2 (drop i h)) of
        Inl x \<Rightarrow> Inl x
      | Inr n \<Rightarrow>
          (case py_truediv (real_of_int n) 255 of
             Inl x \<Rightarrow> Inl x
           | Inr v \<Rightarrow>
               (case hex_pairs h rest of
                  Inl x \<Rightarrow> Inl x
                | Inr vs \<Rightarrow> Inr (v # vs))))"

text \<open>The body of the \<open>for\<close> loop for one text: the embedding that is appended.\<close>

definition fake_embedding :: "pystr \<Rightarrow> exn + real list" where
  "fake_embedding text =
     (case str_encode text of
        Inl x \<Rightarrow> Inl x
      | Inr bs \<Rightarrow> hex_pairs (hexdigest (md5 bs)) (map (\<lambda>k. 2 * k) [0..<16]))"

fun embed_loop :: "pystr list \<Rightarrow> real list list \<Rightarrow> exn + real list list" where
  "embed_loop [] embeddings = Inr embeddings"
| "embed_loop (text # texts) embeddings =
     (case fake_embedding text of
        Inl x \<Rightarrow> Inl x
      | Inr embedding \<Rightarrow> embed_loop texts (embeddings @ [embedding]))"

text \<open>
  The body of \<open>try\<close>. It yields the record that is returned and, beside it, the local
  \<open>embeddings\<close>, which the function computes and drops.
\<close>

definition embedding_try ::
  "'w env \<Rightarrow> pystr list \<Rightarrow> pystr \<Rightarrow> real \<Rightarrow> 'w \<Rightarrow> (exn + real list list \<times> pydict) \<times> 'w" where
  "embedding_try e texts provider_name start_time w =
     (if provider_name = lit ''fake''
      then (case embed_loop texts [] of
              Inl x \<Rightarrow> (Inl x, w)
            | Inr embeddings \<Rightarrow>
                (case time_time e w of
                   (t, w1) \<Rightarrow>
                     (case (if texts \<noteq> []
                            then map_sum id PyFloat
                                   (py_truediv ((t - start_time) * 1000) (real (length texts)))
                            else Inr (PyInt 0)) of
                        Inl x \<Rightarrow> (Inl x, w1)
                      | Inr avg \<Rightarrow>
                          (Inr (embeddings,
                                [(''embedding_provider'', PyStr provider_name),
                                 (''text_count'', PyInt (int (length texts))),
                                 (''embed_time_ms'', PyFloat ((t - start_time) * 1000)),
                                 (''avg_embed_time_per_text_ms'', avg),
                                 (''success'', PyBool True)]), w1))))
      else (Inl (ValueError (lit ''Unknown embedding provider: '' @ provider_name)), w))"

definition embedding_failure :: "pystr list \<Rightarrow> pystr \<Rightarrow> real \<Rightarrow> exn \<Rightarrow> pydict" where
  "embedding_failure texts provider_name elapsed x =
     [(''embedding_provider'', PyStr provider_name),
      (''text_count'', PyInt (int (length texts))),
      (''embed_time_ms'', PyFloat (elapsed * 1000)),
      (''error'', PyStr (str_exn x)),
      (''success'', PyBool False)]"

definition benchmark_embedding :: "'w env \<Rightarrow> pystr list \<Rightarrow> pystr \<Rightarrow> 'w \<Rightarrow> pydict \<times> 'w" where
  "benchmark_embedding e texts provider_name w =
     (case time_time e w of
        (start_time, w0) \<Rightarrow>
          (case embedding_try e texts provider_name start_time w0 of
             (Inr (embeddings, d), w1) \<Rightarrow> (d, w1)
           | (Inl x, w1) \<Rightarrow>
               (case time_time e w1 of
                  (t, w2) \<Rightarrow> (embedding_failure texts provider_name (t - start_time) x, w2))))"

text \<open>What the local \<open>embeddings\<close> holds when the call returns a success record.\<close>

definition embeddings_computed ::
  "'w env \<Rightarrow> pystr list \<Rightarrow> pystr \<Rightarrow> 'w \<Rightarrow> real list list option" where
  "embeddings_computed e texts provider_name w =
     (case time_time e w of
        (start_time, w0) \<Rightarrow>
          (case embedding_try e texts provider_name start_time w0 of
             (Inr (embeddings, d), w1) \<Rightarrow> Some embeddings
           | (Inl x, w1) \<Rightarrow> None))"

section \<open>Definitions used in the statements\<close>

text \<open>The success record, with the guard of \<open>avg_chunk_size\<close> resolved.\<close>

definition parsing_record :: "pystr \<Rightarrow> pystr \<Rightarrow> real \<Rightarrow> chunk list \<Rightarrow> pydict" where
  "parsing_record file_path parser_name parse_time chunks =
     [(''file'', PyStr (basename file_path)),
      (''parser'', PyStr parser_name),
      (''parse_time_ms'', PyFloat (parse_time * 1000)),
      (''chunk_count'', PyInt (int (length chunks))),
      (''total_chunk_size'', PyInt (chunk_sizes chunks)),
      (''avg_chunk_size'',
         if chunks \<noteq> []
         then PyFloat (real_of_int (chunk_sizes chunks) / real (length chunks))
         else PyInt 0),
      (''success'', PyBool True)]"

text \<open>An environment to run the script in: the world is the number of calls made so far,
  the clock reads it, every file holds a heading, and a parser returns two chunks.\<close>

definition demo_env :: "nat env" where
  "demo_env =
     \<lparr>time_time = (\<lambda>w. (real w, Suc w)),
      new_parser = (\<lambda>c w. (Inr (), Suc w)),
      open_read = (\<lambda>p w. (Inr (lit ''# Title''), Suc w)),
      parser_parse = (\<lambda>c text p w. (Inr [\<lparr>content = text\<rparr>, \<lparr>content = lit ''ab''\<rparr>], Suc w)),
      path_exists = (\<lambda>p. True),
      sys_version = lit ''3.12.0'',
      project_root = lit ''/repo'',
      script_dir = lit ''/repo/python-deps''\<rparr>"


text \<open>The vector the fake provider derives from the UTF-8 bytes of a text: one value per
  byte of the MD5 digest.\<close>

definition digest_vector :: "byte list \<Rightarrow> real list" where
  "digest_vector bs = map (\<lambda>b. real (unat b) / 255) (md5 bs)"

text \<open>The success record of \<open>benchmark_embedding\<close>, with the guard of the average
  resolved.\<close>

definition embedding_record :: "pystr \<Rightarrow> pystr list \<Rightarrow> real \<Rightarrow> pydict" where
  "embedding_record provider_name texts embed_time =
     [(''embedding_provider'', PyStr provider_name),
      (''text_count'', PyInt (int (length texts))),
      (''embed_time_ms'', PyFloat (embed_time * 1000)),
      (''avg_embed_time_per_text_ms'',
         if texts \<noteq> [] then PyFloat (embed_time * 1000 / real (length texts)) else PyInt 0),
      (''success'', PyBool True)]"

text \<open>The world in which the exception handler of each function starts, when the body of
  its \<open>try\<close> has raised: the clock is read there once more.\<close>

definition parsing_failure_point :: "'w env \<Rightarrow> pystr \<Rightarrow> pystr \<Rightarrow> 'w \<Rightarrow> 'w" where
  "parsing_failure_point e file_path parser_name w =
     snd (parsing_try e file_path parser_name (fst (time_time e w)) (snd (time_time e w)))"

definition embedding_failure_point :: "'w env \<Rightarrow> pystr list \<Rightarrow> pystr \<Rightarrow> 'w \<Rightarrow> 'w" where
  "embedding_failure_point e texts provider_name w =
     snd (embedding_try e texts provider_name (fst (time_time e w)) (snd (time_time e w)))"

section \<open>Properties of benchmark\_file\_parsing\<close>

lemma parsing_success_total:
  "parsing_success file_path parser_name parse_time chunks =
     Inr (parsing_record file_path parser_name parse_time chunks)"
  by (simp add: parsing_success_def parsing_record_def py_truediv_def)

lemma parsing_try_cases:
  "(\<exists>t chunks. fst (parsing_try e file_path parser_name start_time w) =
       Inr (parsing_record file_path parser_name t chunks))
   \<or> (\<exists>x. fst (parsing_try e file_path parser_name start_time w) = Inl x)"
  unfolding parsing_try_def
  by (simp add: parsing_success_total split: prod.splits sum.splits) blast

lemma benchmark_file_parsing_cases:
  "(\<exists>t chunks. fst (benchmark_file_parsing e file_path parser_name w) =
       parsing_record file_path parser_name t chunks)
   \<or> (\<exists>t x. fst (benchmark_file_parsing e file_path parser_name w) =
          parsing_failure file_path parser_name t x)"
proof -
  obtain start_time w0 where s: "time_time e w = (start_time, w0)"
    by (cases "time_time e w")
  obtain r w1 where r: "parsing_try e file_path parser_name start_time w0 = (r, w1)"
    by (cases "parsing_try e file_path parser_name start_time w0")
  show ?thesis
  proof (cases r)
    case (Inr d)
    with parsing_try_cases [of e file_path parser_name start_time w0] r
    obtain t chunks where "d = parsing_record file_path parser_name t chunks"
      by auto
    with s r Inr show ?thesis
      by (auto simp: benchmark_file_parsing_def)
  next
    case (Inl x)
    with s r show ?thesis
      by (auto simp: benchmark_file_parsing_def split: prod.splits)
  qed
qed

lemma demo_parsing:
  "benchmark_file_parsing demo_env (lit ''/t/sample.md'') (lit ''markdown'') 0 =
     ([(''file'', PyStr (lit ''sample.md'')),
       (''parser'', PyStr (lit ''markdown'')),
       (''parse_time_ms'', PyFloat 4000),
       (''chunk_count'', PyInt 2),
       (''total_chunk_size'', PyInt 9),
       (''avg_chunk_size'', PyFloat (9 / 2)),
       (''success'', PyBool True)], 5)"
  by (simp add: benchmark_file_parsing_def parsing_try_def parsing_success_total
      parsing_record_def demo_env_def select_parser_def lit_def basename_def chunk_sizes_def)

text \<open>
  C6. Every successful record of \<open>benchmark_file_parsing\<close> has a chunk count \<open>n\<close> and a
  total size \<open>t\<close> such that \<open>avg_chunk_size\<close> is \<open>t / n\<close> when \<open>n > 0\<close> and \<open>0\<close> when
  \<open>n = 0\<close>; and building the success record never raises (its division is guarded), for
  any list of chunks.
\<close>

theorem avg_chunk_size_guarded:
  "(map_of (fst (benchmark_file_parsing e file_path parser_name w)) ''success'' = Some (PyBool True)
    \<longrightarrow> (\<exists>n t. 0 \<le> n
          \<and> map_of (fst (benchmark_file_parsing e file_path parser_name w)) ''chunk_count'' = Some (PyInt n)
          \<and> map_of (fst (benchmark_file_parsing e file_path parser_name w)) ''total_chunk_size'' = Some (PyInt t)
          \<and> map_of (fst (benchmark_file_parsing e file_path parser_name w)) ''avg_chunk_size'' =
               Some (if 0 < n then PyFloat (real_of_int t / real_of_int n) else PyInt 0)))
   \<and> \<not> isl (parsing_success file_path parser_name parse_time chunks)"
proof (intro conjI impI)
  assume ok: "map_of (fst (benchmark_file_parsing e file_path parser_name w)) ''success'' = Some (PyBool True)"
  from benchmark_file_parsing_cases [of e file_path parser_name w]
  show "\<exists>n t. 0 \<le> n
          \<and> map_of (fst (benchmark_file_parsing e file_path parser_name w)) ''chunk_count'' = Some (PyInt n)
          \<and> map_of (fst (benchmark_file_parsing e file_path parser_name w)) ''total_chunk_size'' = Some (PyInt t)
          \<and> map_of (fst (benchmark_file_parsing e file_path parser_name w)) ''avg_chunk_size'' =
               Some (if 0 < n then PyFloat (real_of_int t / real_of_int n) else PyInt 0)"
  proof (elim disjE exE)
    fix t cs
    assume d: "fst (benchmark_file_parsing e file_path parser_name w) =
       parsing_record file_path parser_name t cs"
    show ?thesis
      unfolding d
      by (rule exI [of _ "int (length cs)"], rule exI [of _ "chunk_sizes cs"])
         (simp add: parsing_record_def)
  next
    fix t x
    assume "fst (benchmark_file_parsing e file_path parser_name w) =
       parsing_failure file_path parser_name t x"
    with ok show ?thesis
      by (simp add: parsing_failure_def)
  qed
next
  show "\<not> isl (parsing_success file_path parser_name parse_time chunks)"
    by (simp add: parsing_success_total)
qed

theorem avg_chunk_size_guarded_witness:
  "map_of (fst (benchmark_file_parsing demo_env (lit ''/t/sample.md'') (lit ''markdown'') 0))
     ''success'' = Some (PyBool True)
   \<and> (\<exists>n t. map_of (fst (benchmark_file_parsing demo_env (lit ''/t/sample.md'') (lit ''markdown'') 0))
          ''chunk_count'' = Some (PyInt n)
        \<and> map_of (fst (benchmark_file_parsing demo_env (lit ''/t/sample.md'') (lit ''markdown'') 0))
          ''avg_chunk_size'' = Some (if 0 < n then PyFloat (real_of_int t / real_of_int n) else PyInt 0))"
proof -
  have ok: "map_of (fst (benchmark_file_parsing demo_env (lit ''/t/sample.md'') (lit ''markdown'') 0))
     ''success'' = Some (PyBool True)"
    by (simp add: demo_parsing)
  from avg_chunk_size_guarded [of demo_env "lit ''/t/sample.md''" "lit ''markdown''" 0] ok
  show ?thesis by blast
qed

section \<open>Properties of the fake embedding\<close>

lemma length_word_bytes: "length (word_bytes w) = 4"
  by (simp add: word_bytes_def)

lemma length_md5_output: "length (md5_output st) = 16"
  by (cases st) (simp add: length_word_bytes)

lemma length_md5: "length (md5 bs) = 16"
  by (simp add: md5_def length_md5_output)

lemma hex_value_hex_digit: "d < 16 \<Longrightarrow> hex_value (hex_digit d) = Some d"
  by (auto simp: hex_value_def hex_digit_def)

lemma py_int16_hex_pair:
  assumes "n < 256"
  shows "py_int16 [hex_digit (n div 16), hex_digit (n mod 16)] = Inr (int n)"
proof -
  have hi: "n div 16 < 16" using assms by simp
  have lo: "n mod 16 < 16" by simp
  have "16 * (n div 16) + n mod 16 = n" by simp
  then show ?thesis
    by (simp add: py_int16_def hex_value_hex_digit [OF hi] hex_value_hex_digit [OF lo])
qed

lemma drop_hexdigest: "drop (2 * k) (hexdigest ds) = hexdigest (drop k ds)"
proof (induction k arbitrary: ds)
  case 0
  then show ?case by simp
next
  case (Suc k)
  show ?case
  proof (cases ds)
    case Nil
    then show ?thesis by (simp add: hexdigest_def)
  next
    case (Cons d rest)
    have "drop (2 * Suc k) (hexdigest (d # rest)) = drop (2 * k) (hexdigest rest)"
      by (simp add: hexdigest_def)
    with Suc.IH [of rest] Cons show ?thesis by simp
  qed
qed

lemma hexdigest_slice:
  assumes "k < length ds"
  shows "take 2 (drop (2 * k) (hexdigest ds)) =
           [hex_digit (unat (ds ! k) div 16), hex_digit (unat (ds ! k) mod 16)]"
proof -
  from assms obtain d rest where dr: "drop k ds = d # rest" and d: "d = ds ! k"
    by (metis Cons_nth_drop_Suc)
  show ?thesis
    by (simp add: drop_hexdigest dr) (simp add: hexdigest_def d)
qed

lemma unat_byte_less: "unat (b :: byte) < 256"
  using unsigned_less [of b, where ?'a = nat] by simp

lemma hex_pairs_digest:
  "list_all (\<lambda>k. k < length ds) ks \<Longrightarrow>
     hex_pairs (hexdigest ds) (map (\<lambda>k. 2 * k) ks) = Inr (map (\<lambda>k. real (unat (ds ! k)) / 255) ks)"
proof (induction ks)
  case Nil
  then show ?case by simp
next
  case (Cons k ks)
  then have k: "k < length ds" and rest: "list_all (\<lambda>k. k < length ds) ks"
    by simp_all
  show ?case
    by (simp add: hexdigest_slice [OF k] py_int16_hex_pair [OF unat_byte_less]
        py_truediv_def Cons.IH [OF rest])
qed

lemma hex_pairs_md5:
  "hex_pairs (hexdigest (md5 bs)) (map (\<lambda>k. 2 * k) [0..<16]) = Inr (digest_vector bs)"
proof -
  have "list_all (\<lambda>k. k < length (md5 bs)) [0..<16]"
    by (simp add: length_md5 list_all_iff)
  from hex_pairs_digest [OF this]
  have "hex_pairs (hexdigest (md5 bs)) (map (\<lambda>k. 2 * k) [0..<16]) =
          Inr (map (\<lambda>k. real (unat (md5 bs ! k)) / 255) [0..<length (md5 bs)])"
    by (simp add: length_md5)
  also have "map (\<lambda>k. real (unat (md5 bs ! k)) / 255) [0..<length (md5 bs)] =
          map (\<lambda>b. real (unat b) / 255) (map (\<lambda>k. md5 bs ! k) [0..<length (md5 bs)])"
    by simp
  also have "\<dots> = digest_vector bs"
    by (simp only: map_nth digest_vector_def)
  finally show ?thesis .
qed

lemma fake_embedding_eq:
  "fake_embedding text =
     (case str_encode text of Inl x \<Rightarrow> Inl x | Inr bs \<Rightarrow> Inr (digest_vector bs))"
  by (simp add: fake_embedding_def hex_pairs_md5 split: sum.splits)

lemma length_digest_vector: "length (digest_vector bs) = 16"
  by (simp add: digest_vector_def length_md5)

lemma byte_fraction_range: "n < 256 \<Longrightarrow> 0 \<le> real n / 255 \<and> real n / 255 \<le> 1"
  by simp

lemma digest_vector_range: "list_all (\<lambda>v. 0 \<le> v \<and> v \<le> 1) (digest_vector bs)"
  unfolding digest_vector_def list_all_iff
  using byte_fraction_range [OF unat_byte_less] by auto

lemma embed_loop_acc:
  "embed_loop texts acc =
     (if list_all (\<lambda>t. \<not> isl (fake_embedding t)) texts
      then Inr (acc @ map (\<lambda>t. projr (fake_embedding t)) texts)
      else Inl (projl (fake_embedding (hd (filter (\<lambda>t. isl (fake_embedding t)) texts)))))"
proof (induction texts arbitrary: acc)
  case Nil
  then show ?case by simp
next
  case (Cons t texts)
  show ?case
    by (cases "fake_embedding t") (simp_all add: Cons.IH)
qed

section \<open>Properties of the two benchmark functions\<close>

lemma lit_append_nonempty: "lit (c # s) @ t \<noteq> []"
  by (simp add: lit_def)

lemma benchmark_file_parsing_raised:
  assumes "parsing_try e file_path parser_name (fst (time_time e w)) (snd (time_time e w)) = (Inl x, w1)"
  shows "benchmark_file_parsing e file_path parser_name w =
           (parsing_failure file_path parser_name (fst (time_time e w1) - fst (time_time e w)) x,
            snd (time_time e w1))"
  using assms by (simp add: benchmark_file_parsing_def case_prod_beta)

lemma benchmark_file_parsing_returned:
  assumes "parsing_try e file_path parser_name (fst (time_time e w)) (snd (time_time e w)) = (Inr d, w1)"
  shows "benchmark_file_parsing e file_path parser_name w = (d, w1)"
  using assms by (simp add: benchmark_file_parsing_def case_prod_beta)

lemma parsing_try_unknown:
  assumes "parser_name \<notin> {lit ''markdown'', lit ''yaml'', lit ''vue'', lit ''code''}"
  shows "parsing_try e file_path parser_name start_time w =
           (Inl (ValueError (lit ''Unknown parser: '' @ parser_name)), w)"
  using assms by (simp add: parsing_try_def select_parser_def)

lemma embedding_try_eq:
  "embedding_try e texts provider_name start_time w =
     (if provider_name = lit ''fake''
      then (case embed_loop texts [] of
              Inl x \<Rightarrow> (Inl x, w)
            | Inr embeddings \<Rightarrow>
                (Inr (embeddings,
                      embedding_record provider_name texts (fst (time_time e w) - start_time)),
                 snd (time_time e w)))
      else (Inl (ValueError (lit ''Unknown embedding provider: '' @ provider_name)), w))"
  by (simp add: embedding_try_def embedding_record_def py_truediv_def
      split: prod.splits sum.splits)

lemma benchmark_embedding_raised:
  assumes "embedding_try e texts provider_name (fst (time_time e w)) (snd (time_time e w)) = (Inl x, w1)"
  shows "benchmark_embedding e texts provider_name w =
           (embedding_failure texts provider_name (fst (time_time e w1) - fst (time_time e w)) x,
            snd (time_time e w1))"
  using assms by (simp add: benchmark_embedding_def case_prod_beta)

lemma benchmark_embedding_returned:
  assumes "embedding_try e texts provider_name (fst (time_time e w)) (snd (time_time e w)) =
             (Inr (embeddings, d), w1)"
  shows "benchmark_embedding e texts provider_name w = (d, w1)"
  using assms by (simp add: benchmark_embedding_def case_prod_beta)

lemma embedding_try_cases:
  "(\<exists>embeddings t w1. embedding_try e texts provider_name start_time w =
       (Inr (embeddings, embedding_record provider_name texts t), w1))
   \<or> (\<exists>x. embedding_try e texts provider_name start_time w = (Inl x, w))"
  by (cases "embed_loop texts []") (auto simp: embedding_try_eq)

lemma benchmark_embedding_cases:
  "(\<exists>t. fst (benchmark_embedding e texts provider_name w) =
       embedding_record provider_name texts t)
   \<or> (\<exists>t x. fst (benchmark_embedding e texts provider_name w) =
          embedding_failure texts provider_name t x)"
  using embedding_try_cases [of e texts provider_name "fst (time_time e w)" "snd (time_time e w)"]
proof (elim disjE exE)
  fix embeddings t w1
  assume "embedding_try e texts provider_name (fst (time_time e w)) (snd (time_time e w)) =
       (Inr (embeddings, embedding_record provider_name texts t), w1)"
  from benchmark_embedding_returned [OF this] show ?thesis
    by auto
next
  fix x
  assume "embedding_try e texts provider_name (fst (time_time e w)) (snd (time_time e w)) =
       (Inl x, snd (time_time e w))"
  from benchmark_embedding_raised [OF this] show ?thesis
    by auto
qed

text \<open>
  C1. For a parser kind other than markdown, yaml, vue and code, \<open>benchmark_file_parsing\<close>
  returns the failure record: success is false, the error text is
  \<open>Unknown parser: <kind>\<close>, which is not empty, and the elapsed time between the two
  readings of the clock is recorded. For a provider other than fake,
  \<open>benchmark_embedding\<close> returns the failure record with the error text
  \<open>Unknown embedding provider: <name>\<close> and the elapsed time. Both return a record: no
  exception reaches the caller.
\<close>

theorem unsupported_identifier_failure_record:
  "(parser_name \<notin> {lit ''markdown'', lit ''yaml'', lit ''vue'', lit ''code''} \<longrightarrow>
      fst (benchmark_file_parsing e file_path parser_name w) =
        [(''file'', PyStr (basename file_path)),
         (''parser'', PyStr parser_name),
         (''parse_time_ms'',
            PyFloat ((fst (time_time e (snd (time_time e w))) - fst (time_time e w)) * 1000)),
         (''error'', PyStr (lit ''Unknown parser: '' @ parser_name)),
         (''success'', PyBool False)]
      \<and> lit ''Unknown parser: '' @ parser_name \<noteq> [])
   \<and> (provider_name \<noteq> lit ''fake'' \<longrightarrow>
      fst (benchmark_embedding e texts provider_name w) =
        [(''embedding_provider'', PyStr provider_name),
         (''text_count'', PyInt (int (length texts))),
         (''embed_time_ms'',
            PyFloat ((fst (time_time e (snd (time_time e w))) - fst (time_time e w)) * 1000)),
         (''error'', PyStr (lit ''Unknown embedding provider: '' @ provider_name)),
         (''success'', PyBool False)]
      \<and> lit ''Unknown embedding provider: '' @ provider_name \<noteq> [])"
proof (intro conjI impI)
  assume "parser_name \<notin> {lit ''markdown'', lit ''yaml'', lit ''vue'', lit ''code''}"
  then have "parsing_try e file_path parser_name (fst (time_time e w)) (snd (time_time e w)) =
      (Inl (ValueError (lit ''Unknown parser: '' @ parser_name)), snd (time_time e w))"
    by (rule parsing_try_unknown)
  from benchmark_file_parsing_raised [OF this]
  show "fst (benchmark_file_parsing e file_path parser_name w) =
        [(''file'', PyStr (basename file_path)),
         (''parser'', PyStr parser_name),
         (''parse_time_ms'',
            PyFloat ((fst (time_time e (snd (time_time e w))) - fst (time_time e w)) * 1000)),
         (''error'', PyStr (lit ''Unknown parser: '' @ parser_name)),
         (''success'', PyBool False)]"
    by (simp add: parsing_failure_def)
next
  assume "provider_name \<noteq> lit ''fake''"
  then have "embedding_try e texts provider_name (fst (time_time e w)) (snd (time_time e w)) =
      (Inl (ValueError (lit ''Unknown embedding provider: '' @ provider_name)), snd (time_time e w))"
    by (simp add: embedding_try_eq)
  from benchmark_embedding_raised [OF this]
  show "fst (benchmark_embedding e texts provider_name w) =
        [(''embedding_provider'', PyStr provider_name),
         (''text_count'', PyInt (int (length texts))),
         (''embed_time_ms'',
            PyFloat ((fst (time_time e (snd (time_time e w))) - fst (time_time e w)) * 1000)),
         (''error'', PyStr (lit ''Unknown embedding provider: '' @ provider_name)),
         (''success'', PyBool False)]"
    by (simp add: embedding_failure_def)
qed (simp_all add: lit_def)

theorem unsupported_identifier_failure_record_witness:
  "fst (benchmark_file_parsing demo_env (lit ''/t/pyproject.toml'') (lit ''toml'') 0) =
     [(''file'', PyStr (lit ''pyproject.toml'')),
      (''parser'', PyStr (lit ''toml'')),
      (''parse_time_ms'', PyFloat 1000),
      (''error'', PyStr (lit ''Unknown parser: toml'')),
      (''success'', PyBool False)]
   \<and> fst (benchmark_embedding demo_env [lit ''a'', lit ''b''] (lit ''openai'') 0) =
     [(''embedding_provider'', PyStr (lit ''openai'')),
      (''text_count'', PyInt 2),
      (''embed_time_ms'', PyFloat 1000),
      (''error'', PyStr (lit ''Unknown embedding provider: openai'')),
      (''success'', PyBool False)]"
  using unsupported_identifier_failure_record
    [of "lit ''toml''" demo_env "lit ''/t/pyproject.toml''" 0 "lit ''openai''" "[lit ''a'', lit ''b'']"]
  by (simp add: lit_def demo_env_def basename_def)

end
